theory Spec2Isabelle
  imports Complex_Main
begin

section \<open>Numbers\<close>

text \<open>
  The front end computes with JavaScript numbers, which are double-precision floating-point
  numbers. Two levels of detail are used.

  The yield estimate rounds a product to an integer, so that an error in the last bit of the
  product can change the result. It is therefore modelled in double precision: every
  argument and every literal is rounded to a double, and so is the result of every
  subtraction, multiplication and division. The cost breakdown has a second definition of the
  same kind. Everywhere else a finite number is an exact real and the rounding error of the
  operations is left out.

  The three non-finite values that a division can return are kept as values of their own,
  so that a division by zero is a visible result and not an unspecified one. The sign of a
  zero is not modelled: every divisor of the code that can be zero is a sum or a product of
  non-negative numbers, hence the positive zero.
\<close>

datatype number = Finite real | PosInfinity | NegInfinity | NaN

definition js_div :: "real \<Rightarrow> real \<Rightarrow> number" where
  "js_div a b =
     (if b \<noteq> 0 then Finite (a / b)
      else if 0 < a then PosInfinity
      else if a < 0 then NegInfinity
      else NaN)"

fun js_times :: "number \<Rightarrow> real \<Rightarrow> number" where
  "js_times (Finite a) b = Finite (a * b)"
| "js_times PosInfinity b = (if 0 < b then PosInfinity else if b < 0 then NegInfinity else NaN)"
| "js_times NegInfinity b = (if 0 < b then NegInfinity else if b < 0 then PosInfinity else NaN)"
| "js_times NaN b = NaN"

text \<open>
  \<^verbatim>\<open>Math.round\<close>: the nearest integer, a tie going to the larger one. The sum under the
  floor is the exact one.
\<close>

definition Math_round :: "real \<Rightarrow> real" where
  "Math_round a = real_of_int \<lfloor>a + 1 / 2\<rfloor>"

section \<open>Double precision\<close>

text \<open>
  \<open>binary64\<close> rounds a real to the nearest number with 53 significant bits, a tie going to
  the even significand, which is how a JavaScript number is rounded. The exponent range is
  not bounded: overflow and gradual underflow are left out. \<open>floor_log2 x\<close> is the integer
  \<open>k\<close> with \<open>2 ^ k \<le> x < 2 ^ (k + 1)\<close>, for a positive \<open>x\<close>.
\<close>

function floor_log2 :: "real \<Rightarrow> int" where
  "floor_log2 x =
     (if x \<le> 0 then 0
      else if x < 1 then floor_log2 (2 * x) - 1
      else if 2 \<le> x then floor_log2 (x / 2) + 1
      else 0)"
  by pat_completeness auto
termination
proof (relation "measure (\<lambda>x. nat \<bar>\<lfloor>log 2 x\<rfloor>\<bar>)")
  show "wf (measure (\<lambda>x. nat \<bar>\<lfloor>log 2 x\<rfloor>\<bar>))"
    by simp
next
  fix x :: real
  assume "\<not> x \<le> 0" and "x < 1"
  then have "log 2 (2 * x) = 1 + log 2 x" and "log 2 x < 0"
    by (simp_all add: log_mult)
  then have "\<lfloor>log 2 (2 * x)\<rfloor> = 1 + \<lfloor>log 2 x\<rfloor>" and "\<lfloor>log 2 x\<rfloor> < 0"
    by (simp_all add: floor_less_iff)
  then have "\<bar>\<lfloor>log 2 (2 * x)\<rfloor>\<bar> < \<bar>\<lfloor>log 2 x\<rfloor>\<bar>"
    by linarith
  then show "(2 * x, x) \<in> measure (\<lambda>x. nat \<bar>\<lfloor>log 2 x\<rfloor>\<bar>)"
    by simp
next
  fix x :: real
  assume "\<not> x \<le> 0" and "\<not> x < 1" and "2 \<le> x"
  then have "log 2 (x / 2) = log 2 x - 1" and "1 \<le> log 2 x"
    by (simp_all add: log_divide)
  then have "\<lfloor>log 2 (x / 2)\<rfloor> = \<lfloor>log 2 x\<rfloor> - 1" and "1 \<le> \<lfloor>log 2 x\<rfloor>"
    by (simp_all add: le_floor_iff)
  then have "\<bar>\<lfloor>log 2 (x / 2)\<rfloor>\<bar> < \<bar>\<lfloor>log 2 x\<rfloor>\<bar>"
    by linarith
  then show "(x / 2, x) \<in> measure (\<lambda>x. nat \<bar>\<lfloor>log 2 x\<rfloor>\<bar>)"
    by simp
qed

definition round_half_even :: "real \<Rightarrow> int" where
  "round_half_even y =
     (let f = \<lfloor>y\<rfloor>
      in if y - of_int f < 1 / 2 then f
         else if 1 / 2 < y - of_int f then f + 1
         else if even f then f else f + 1)"

definition binary64 :: "real \<Rightarrow> real" where
  "binary64 x =
     (if x = 0 then 0
      else let e = floor_log2 \<bar>x\<bar> - 52
           in of_int (round_half_even (x / 2 powi e)) * 2 powi e)"

declare floor_log2.simps [simp del]

text \<open>
  \<^verbatim>\<open>Math.PI\<close> is the double nearest to \<open>pi\<close>. The result of \<^verbatim>\<open>Math.cos\<close> is left to the
  implementation by the language standard, 1 at the argument 0 apart. The yield estimate
  takes the implementation as a parameter, a function from doubles to doubles, and what is
  proved of it holds for every such function. \<open>Math_cos_nearest\<close> is the implementation that
  returns the double nearest to the cosine; it is used where a property is evaluated for
  given inputs.
\<close>

definition Math_PI :: real where
  "Math_PI = binary64 pi"

definition Math_cos_nearest :: "real \<Rightarrow> real" where
  "Math_cos_nearest a = binary64 (cos a)"

section \<open>Data model (types/project.ts)\<close>

text \<open>
  The interfaces of the front end, field by field. Three names are changed because the short
  ones are taken: \<^verbatim>\<open>id\<close> is \<open>component_id\<close>, the \<^verbatim>\<open>type\<close> of an obstacle is
  \<open>obstacle_type\<close>, and the coordinates \<^verbatim>\<open>x\<close>, \<^verbatim>\<open>y\<close>, \<^verbatim>\<open>z\<close> are \<open>pos_x\<close>, \<open>pos_y\<close>,
  \<open>pos_z\<close>. The specifications of a component map a key to a number or a string.
\<close>

record Location =
  latitude :: real
  longitude :: real
  address :: string

record Dimensions =
  width :: real
  height :: real
  depth :: real

record Position =
  pos_x :: real
  pos_y :: real
  pos_z :: real

record Obstacle =
  obstacle_type :: string
  dimensions :: Dimensions
  position :: Position

record SystemConstraints =
  availableArea :: real
  roofType :: string
  orientation :: real
  tilt :: real
  obstacles :: "Obstacle list"

datatype component_type = panel | inverter | battery

datatype spec_value = NumberValue real | StringValue string

record Component =
  component_id :: string
  type :: component_type
  manufacturer :: string
  model :: string
  specifications :: "string \<rightharpoonup> spec_value"

section \<open>Yield estimate (SimulationResults.tsx)\<close>

record MonthlyProduction =
  month :: string
  production :: real

text \<open>The table of monthly factors, an entry being the month label and its factor.\<close>

definition baseProduction :: "(string \<times> real) list" where
  "baseProduction =
     [(''Ene'', 5.2), (''Feb'', 4.8), (''Mar'', 4.5), (''Abr'', 3.8),
      (''May'', 3.0), (''Jun'', 2.5), (''Jul'', 2.7), (''Ago'', 3.3),
      (''Sep'', 4.0), (''Oct'', 4.7), (''Nov'', 5.0), (''Dic'', 5.3)]"

text \<open>
  \<^verbatim>\<open>(tilt - Math.abs(latitude)) * Math.PI / 180\<close>, the argument of the cosine, and
  \<^verbatim>\<open>tiltFactor\<close>, its cosine under the implementation \<open>mc\<close> of \<^verbatim>\<open>Math.cos\<close>.
\<close>

definition tiltAngle :: "real \<Rightarrow> real \<Rightarrow> real" where
  "tiltAngle tlt lat =
     binary64 (binary64 (binary64 (binary64 tlt - \<bar>binary64 lat\<bar>) * Math_PI) / 180)"

definition tiltFactor :: "(real \<Rightarrow> real) \<Rightarrow> real \<Rightarrow> real \<Rightarrow> real" where
  "tiltFactor mc tlt lat = mc (tiltAngle tlt lat)"

definition calculateMonthlyProduction ::
  "(real \<Rightarrow> real) \<Rightarrow> real \<Rightarrow> real \<Rightarrow> real \<Rightarrow> MonthlyProduction list" where
  "calculateMonthlyProduction mc systemSize tlt lat =
     map (\<lambda>(m, f).
            \<lparr>month = m,
             production =
               Math_round
                 (binary64
                    (binary64 (binary64 (binary64 systemSize * binary64 f)
                               * tiltFactor mc tlt lat)
                     * 30))\<rparr>)
       baseProduction"

record PerformanceMetrics =
  annualProduction :: real
  specificYield :: number
  performanceRatio :: real
  co2Savings :: real

definition calculatePerformanceMetrics :: "real \<Rightarrow> MonthlyProduction list \<Rightarrow> PerformanceMetrics" where
  "calculatePerformanceMetrics systemSize monthly =
     (let annual = foldl (\<lambda>acc m. acc + production m) 0 monthly
      in \<lparr>annualProduction = annual,
          specificYield = js_div annual systemSize,
          performanceRatio = 0.8,
          co2Savings = annual * 0.5\<rparr>)"

text \<open>
  The values that the component \<^verbatim>\<open>SimulationResults\<close> computes before it renders them.
  \<^verbatim>\<open>location?.latitude || -33.4489\<close> takes the default when there is no location and
  also when the latitude is the falsy number 0.

  The product \<^verbatim>\<open>panels.length * 0.360\<close> appears twice. The size that is shown and that the
  metrics divide by is the exact product, as in \<^verbatim>\<open>calculateSystemSize\<close>. The estimator is
  given the product with the literal 0.360 as a double; it rounds its arguments on entry,
  and so computes with the double that the multiplication of the code returns.
\<close>

record SimulationView =
  systemSize :: real
  monthlyProduction :: "MonthlyProduction list"
  metrics :: PerformanceMetrics

definition effectiveLatitude :: "Location option \<Rightarrow> real" where
  "effectiveLatitude loc =
     (case loc of
        None \<Rightarrow> - 33.4489
      | Some l \<Rightarrow> if latitude l = 0 then - 33.4489 else latitude l)"

definition SimulationResults ::
  "(real \<Rightarrow> real) \<Rightarrow> Component list \<Rightarrow> SystemConstraints \<Rightarrow> Location option
     \<Rightarrow> SimulationView" where
  "SimulationResults mc selectedComponents systemConstraints loc =
     (let panels = filter (\<lambda>c. type c = panel) selectedComponents;
          size_kw = real (length panels) * 0.360;
          monthly = calculateMonthlyProduction mc (real (length panels) * binary64 0.360)
                      (tilt systemConstraints) (effectiveLatitude loc)
      in \<lparr>systemSize = size_kw,
          monthlyProduction = monthly,
          metrics = calculatePerformanceMetrics size_kw monthly\<rparr>)"

section \<open>System size (Dashboard page)\<close>

definition calculateSystemSize :: "Component list \<Rightarrow> real" where
  "calculateSystemSize components =
     (let panels = filter (\<lambda>c. type c = panel) components
      in real (length panels) * 0.360)"

text \<open>
  The system size as the specification words it, for comparison with the code: the sum over
  the components of type panel of their nominal power, a nameplate value in watts
  normalised to kW, a missing or zero value counting as 0. The catalogue stores the
  nameplate power of a panel under the key \<^verbatim>\<open>power\<close>.
\<close>

definition spec_nominalPowerKW :: "Component \<Rightarrow> real" where
  "spec_nominalPowerKW c =
     (case specifications c ''power'' of
        Some (NumberValue w) \<Rightarrow> w / 1000
      | _ \<Rightarrow> 0)"

definition spec_systemSizeKW :: "Component list \<Rightarrow> real" where
  "spec_systemSizeKW components =
     sum_list (map spec_nominalPowerKW (filter (\<lambda>c. type c = panel) components))"

section \<open>Economic analysis (EconomicAnalysis component)\<close>

record CostBreakdown =
  category :: string
  cost :: real
  percentage :: number

fun costs :: "component_type \<Rightarrow> real" where
  "costs panel = 300"
| "costs inverter = 1000"
| "costs battery = 7000"

text \<open>The category labels are kept as the bytes of their UTF-8 encoding.\<close>

definition calculateCosts :: "Component list \<Rightarrow> CostBreakdown list" where
  "calculateCosts components =
     (let totalComponentCost = foldl (\<lambda>acc component. acc + costs (type component)) 0 components;
          installationCost = totalComponentCost * 0.3;
          designCost = totalComponentCost * 0.1;
          total = totalComponentCost + installationCost + designCost
      in [\<lparr>category = ''Componentes'',
           cost = totalComponentCost,
           percentage = js_times (js_div totalComponentCost total) 100\<rparr>,
          \<lparr>category = ''Instalaci'' @ [CHR 0xC3, CHR 0xB3] @ ''n'',
           cost = installationCost,
           percentage = js_times (js_div installationCost total) 100\<rparr>,
          \<lparr>category = ''Dise'' @ [CHR 0xC3, CHR 0xB1] @ ''o e Ingenier''
                        @ [CHR 0xC3, CHR 0xAD] @ ''a'',
           cost = designCost,
           percentage = js_times (js_div designCost total) 100\<rparr>])"

text \<open>
  An entry of the cash-flow series. Its field \<^verbatim>\<open>production\<close> is named \<open>yearly_production\<close>
  here, \<open>production\<close> being the field of the monthly series.
\<close>

record ROIEntry =
  year :: nat
  balance :: real
  yearly_production :: real

definition generateROIData :: "real \<Rightarrow> real \<Rightarrow> ROIEntry list" where
  "generateROIData total_cost size_kw =
     (let yearlyProduction = size_kw * 1600;
          electricityPrice = 0.15;
          yearlyRevenue = yearlyProduction * electricityPrice
      in map (\<lambda>y. \<lparr>year = y,
                    balance = - total_cost + yearlyRevenue * real y,
                    yearly_production = yearlyProduction\<rparr>)
           [0..<26])"

text \<open>
  The values that the component \<^verbatim>\<open>EconomicAnalysis\<close> computes before it renders them.
  The property \<^verbatim>\<open>systemSize\<close> is optional and defaults to 10; the component always
  passes a size on, so the default of the second parameter of \<^verbatim>\<open>generateROIData\<close> is never
  taken. The expression
  \<^verbatim>\<open>roiData.find(data => data.balance > 0)?.year || 0\<close> is \<open>findPaybackYear\<close>: the
  right operand is taken when no entry is found and also when the year found is the falsy
  number 0.
\<close>

record EconomicView =
  costBreakdown :: "CostBreakdown list"
  totalCost :: real
  roiData :: "ROIEntry list"
  paybackYear :: nat

definition findPaybackYear :: "ROIEntry list \<Rightarrow> nat" where
  "findPaybackYear roi =
     (case find (\<lambda>d. 0 < balance d) roi of
        None \<Rightarrow> 0
      | Some d \<Rightarrow> if year d = 0 then 0 else year d)"

definition EconomicAnalysis :: "Component list \<Rightarrow> real option \<Rightarrow> EconomicView" where
  "EconomicAnalysis components size_prop =
     (let size_kw = (case size_prop of None \<Rightarrow> 10 | Some v \<Rightarrow> v);
          breakdown = calculateCosts components;
          total_cost = foldl (\<lambda>acc item. acc + cost item) 0 breakdown;
          roi = generateROIData total_cost size_kw
      in \<lparr>costBreakdown = breakdown,
          totalCost = total_cost,
          roiData = roi,
          paybackYear = findPaybackYear roi\<rparr>)"

section \<open>The page that runs both analyses (Dashboard page)\<close>

record DashboardState =
  location :: "Location option"
  selectedComponents :: "Component list"
  systemConstraints :: SystemConstraints

record DashboardView =
  economic :: EconomicView
  simulation :: SimulationView

definition Dashboard :: "(real \<Rightarrow> real) \<Rightarrow> DashboardState \<Rightarrow> DashboardView" where
  "Dashboard mc st =
     \<lparr>economic = EconomicAnalysis (selectedComponents st)
                   (Some (calculateSystemSize (selectedComponents st))),
      simulation = SimulationResults mc (selectedComponents st) (systemConstraints st)
                     (location st)\<rparr>"

section \<open>Cost breakdown in double-precision arithmetic\<close>

text \<open>
  The definition \<open>calculateCosts_rounded\<close> is \<^verbatim>\<open>calculateCosts\<close> again, with a rounding operator
  applied to the literals 0.3 and 0.1 and to the result of every addition, multiplication and
  division; the integer literals are exact. With the identity as operator it is
  \<open>calculateCosts\<close>, with \<open>binary64\<close> it is the computation of the code.
\<close>

text \<open>
  A rounding operator is accurate when its relative error is at most \<open>2 ^ - 53\<close>, the unit
  roundoff of the format.
\<close>

definition rounds_to_nearest :: "(real \<Rightarrow> real) \<Rightarrow> bool" where
  "rounds_to_nearest rnd \<longleftrightarrow> (\<forall>x. \<bar>rnd x - x\<bar> \<le> \<bar>x\<bar> / 2 ^ 53)"




section \<open>Rounding to double precision\<close>

lemma floor_log2_bounds:
  "0 < x \<Longrightarrow> 2 powi floor_log2 x \<le> x \<and> x < 2 powi (floor_log2 x + 1)"
proof (induction x rule: floor_log2.induct)
  case (1 x)
  show ?case
  proof (cases "x < 1")
    case True
    with "1.prems" have eq: "floor_log2 x = floor_log2 (2 * x) - 1"
      by (subst floor_log2.simps) simp
    have ih: "2 powi floor_log2 (2 * x) \<le> 2 * x \<and> 2 * x < 2 powi (floor_log2 (2 * x) + 1)"
      using "1.IH"(1) "1.prems" True by simp
    show ?thesis
      using ih unfolding eq by (simp add: power_int_diff power_int_add)
  next
    case False
    show ?thesis
    proof (cases "2 \<le> x")
      case True
      with "1.prems" False have eq: "floor_log2 x = floor_log2 (x / 2) + 1"
        by (subst floor_log2.simps) simp
      have ih: "2 powi floor_log2 (x / 2) \<le> x / 2 \<and> x / 2 < 2 powi (floor_log2 (x / 2) + 1)"
        using "1.IH"(2) "1.prems" False True by simp
      show ?thesis
        using ih unfolding eq by (simp add: power_int_add)
    next
      case nt: False
      with "1.prems" False have eq: "floor_log2 x = 0"
        by (subst floor_log2.simps) simp
      show ?thesis
        using False nt unfolding eq by simp
    qed
  qed
qed

lemma floor_log2_unique:
  assumes "2 powi k \<le> x" and "x < 2 powi (k + 1)"
  shows "floor_log2 x = k"
proof -
  have "(0::real) < 2 powi k"
    by simp
  with assms(1) have pos: "0 < x"
    by linarith
  note b = floor_log2_bounds [OF pos]
  have "(2::real) powi k < 2 powi (floor_log2 x + 1)"
    using assms(1) b by simp
  then have "k < floor_log2 x + 1"
    by (smt (verit) power_int_increasing)
  moreover have "(2::real) powi floor_log2 x < 2 powi (k + 1)"
    using assms(2) b by simp
  then have "floor_log2 x < k + 1"
    by (smt (verit) power_int_increasing)
  ultimately show ?thesis by simp
qed

lemma round_half_even_error: "\<bar>of_int (round_half_even y) - y\<bar> \<le> 1 / 2"
  unfolding round_half_even_def Let_def by (auto simp: abs_le_iff)

lemma binary64_eval:
  assumes "2 powi (e + 52) \<le> \<bar>x\<bar>" and "\<bar>x\<bar> < 2 powi (e + 53)"
  shows "binary64 x = of_int (round_half_even (x / 2 powi e)) * 2 powi e"
proof -
  have "floor_log2 \<bar>x\<bar> = e + 52"
    using assms by (intro floor_log2_unique) (simp_all add: add.assoc)
  moreover have "(0::real) < 2 powi (e + 52)"
    by simp
  with assms(1) have "0 < \<bar>x\<bar>"
    by linarith
  then have "x \<noteq> 0"
    by simp
  ultimately show ?thesis
    by (simp add: binary64_def Let_def)
qed

lemma binary64_accurate: "\<bar>binary64 x - x\<bar> \<le> \<bar>x\<bar> / 2 ^ 53"
proof (cases "x = 0")
  case True
  then show ?thesis by (simp add: binary64_def)
next
  case False
  define e where "e = floor_log2 \<bar>x\<bar> - 52"
  define p :: real where "p = 2 powi e"
  have p: "0 < p" by (simp add: p_def)
  have "2 powi floor_log2 \<bar>x\<bar> \<le> \<bar>x\<bar>"
    using floor_log2_bounds [of "\<bar>x\<bar>"] False by simp
  moreover have "(2::real) powi floor_log2 \<bar>x\<bar> = p * 2 ^ 52"
    by (simp add: p_def e_def power_int_diff)
  ultimately have big: "p * 2 ^ 52 \<le> \<bar>x\<bar>" by simp
  have "binary64 x = of_int (round_half_even (x / p)) * p"
    using False by (simp add: binary64_def Let_def e_def p_def)
  then have "binary64 x - x = (of_int (round_half_even (x / p)) - x / p) * p"
    using p by (simp add: field_simps)
  then have "\<bar>binary64 x - x\<bar> = \<bar>of_int (round_half_even (x / p)) - x / p\<bar> * p"
    using p by (simp add: abs_mult)
  also have "\<dots> \<le> 1 / 2 * p"
    using round_half_even_error [of "x / p"] p by (intro mult_right_mono) simp_all
  also have "\<dots> \<le> \<bar>x\<bar> / 2 ^ 53"
    using big by simp
  finally show ?thesis .
qed

lemma rounds_to_nearest_binary64: "rounds_to_nearest binary64"
  unfolding rounds_to_nearest_def using binary64_accurate by blast

lemma rounds_to_nearest_exact: "rounds_to_nearest (\<lambda>x. x)"
  by (simp add: rounds_to_nearest_def)

lemma rnd_bounds:
  assumes "rounds_to_nearest rnd" and "0 < x"
  shows "(1 - 1 / 2 ^ 53) * x \<le> rnd x" and "rnd x \<le> (1 + 1 / 2 ^ 53) * x" and "0 < rnd x"
proof -
  have "\<bar>rnd x - x\<bar> \<le> \<bar>x\<bar> / 2 ^ 53"
    using assms(1) unfolding rounds_to_nearest_def by blast
  moreover have "\<bar>x\<bar> = x"
    using assms(2) by simp
  ultimately have "rnd x - x \<le> x / 2 ^ 53" and "x - rnd x \<le> x / 2 ^ 53"
    by linarith+
  then show lo: "(1 - 1 / 2 ^ 53) * x \<le> rnd x" and "rnd x \<le> (1 + 1 / 2 ^ 53) * x"
    by (simp_all add: algebra_simps)
  have "0 < (1 - 1 / 2 ^ 53) * x"
    using assms(2) by simp
  with lo show "0 < rnd x"
    by linarith
qed

text \<open>
  A double given by a numeral is evaluated by unfolding the definitions.
\<close>

lemmas binary64_compute = binary64_def floor_log2.simps round_half_even_def Let_def

lemma binary64_zero [simp]: "binary64 0 = 0"
  by (simp add: binary64_def)

lemma binary64_bounds:
  assumes "0 < x"
  shows "(1 - 1 / 2 ^ 53) * x \<le> binary64 x" and "binary64 x \<le> (1 + 1 / 2 ^ 53) * x"
    and "0 < binary64 x"
  using rnd_bounds [OF rounds_to_nearest_binary64 assms] by simp_all

lemma binary64_bounds_numeral:
  assumes "0 < x"
  shows "9007199254740991 / 9007199254740992 * x \<le> binary64 x"
    and "binary64 x \<le> 9007199254740993 / 9007199254740992 * x"
  using binary64_bounds [OF assms] by simp_all

lemma binary64_nonneg:
  assumes "0 \<le> x"
  shows "0 \<le> binary64 x"
proof (cases "x = 0")
  case True
  then show ?thesis by simp
next
  case False
  with assms have "0 < x" by simp
  then have "0 < binary64 x" by (rule binary64_bounds(3))
  then show ?thesis by simp
qed

lemma round_half_even_minus: "round_half_even (- y) = - round_half_even y"
proof (cases "y \<in> \<int>")
  case True
  then obtain k where "y = of_int k"
    by (auto elim: Ints_cases)
  then show ?thesis
    by (simp add: round_half_even_def Let_def flip: of_int_minus)
next
  case False
  then have "y \<noteq> of_int \<lfloor>y\<rfloor>"
    by (metis Ints_of_int)
  then have fl: "\<lfloor>- y\<rfloor> = - \<lfloor>y\<rfloor> - 1"
    by (simp add: floor_minus ceiling_altdef)
  show ?thesis
    unfolding round_half_even_def Let_def fl by auto
qed

lemma binary64_minus: "binary64 (- x) = - binary64 x"
  by (simp add: binary64_def Let_def round_half_even_minus)

lemma binary64_nonpos:
  assumes "x \<le> 0"
  shows "binary64 x \<le> 0"
proof -
  have "0 \<le> binary64 (- x)"
    using assms by (intro binary64_nonneg) simp
  then show ?thesis
    by (simp add: binary64_minus)
qed

lemma binary64_abs: "binary64 \<bar>x\<bar> = \<bar>binary64 x\<bar>"
proof (cases "0 \<le> x")
  case True
  then show ?thesis
    using binary64_nonneg [of x] by simp
next
  case False
  then have "0 \<le> - x" by simp
  then have "0 \<le> binary64 (- x)" by (rule binary64_nonneg)
  with False show ?thesis
    by (simp add: binary64_minus)
qed

lemma binary64_abs_le: "\<bar>binary64 x\<bar> \<le> 2 * \<bar>x\<bar>"
proof -
  have "\<bar>binary64 x - x\<bar> \<le> \<bar>x\<bar> / 2 ^ 53"
    by (rule binary64_accurate)
  moreover have "\<bar>x\<bar> / 2 ^ 53 \<le> \<bar>x\<bar>"
    by (simp add: field_simps)
  ultimately show ?thesis
    by linarith
qed








lemma Math_cos_nearest_zero: "Math_cos_nearest 0 = 1"
  by (simp add: Math_cos_nearest_def binary64_compute)

lemma Math_round_zero: "Math_round 0 = 0"
  by (simp add: Math_round_def)

lemma Math_round_nonneg: "0 \<le> a \<Longrightarrow> 0 \<le> Math_round a"
  by (simp add: Math_round_def)

lemma Math_round_nonpos: "a \<le> 0 \<Longrightarrow> Math_round a \<le> 0"
  by (simp add: Math_round_def floor_le_iff)

lemma Math_round_small:
  assumes "\<bar>y\<bar> < 1 / 2"
  shows "Math_round y = 0"
proof -
  have "0 \<le> y + 1 / 2" and "y + 1 / 2 < 1"
    using assms by linarith+
  then have "\<lfloor>y + 1 / 2\<rfloor> = 0"
    by (simp add: floor_eq_iff)
  then show ?thesis
    by (simp add: Math_round_def)
qed

section \<open>The monthly series\<close>

lemma tiltAngle_aligned:
  assumes "t = \<bar>l\<bar>"
  shows "tiltAngle t l = 0"
  using assms by (simp add: tiltAngle_def binary64_abs)

lemma tiltFactor_aligned: "tiltFactor Math_cos_nearest 30 (- 30) = 1"
  by (simp add: tiltFactor_def tiltAngle_aligned Math_cos_nearest_zero)

lemma length_calculateMonthlyProduction:
  "length (calculateMonthlyProduction mc s t l) = 12"
  by (simp add: calculateMonthlyProduction_def baseProduction_def)

lemma months_calculateMonthlyProduction:
  "map month (calculateMonthlyProduction mc s t l) = map fst baseProduction"
  by (simp add: calculateMonthlyProduction_def baseProduction_def)

lemma nth_calculateMonthlyProduction:
  assumes "i < 12"
  shows "calculateMonthlyProduction mc s t l ! i =
           \<lparr>month = fst (baseProduction ! i),
            production =
              Math_round
                (binary64
                   (binary64 (binary64 (binary64 s * binary64 (snd (baseProduction ! i)))
                              * tiltFactor mc t l)
                    * 30))\<rparr>"
proof -
  have "i < length baseProduction"
    using assms by (simp add: baseProduction_def)
  then show ?thesis
    by (simp add: calculateMonthlyProduction_def case_prod_beta)
qed

lemma productions_calculateMonthlyProduction:
  "map production (calculateMonthlyProduction mc s t l) =
     map (\<lambda>f. Math_round
                 (binary64 (binary64 (binary64 (binary64 s * binary64 f) * tiltFactor mc t l)
                            * 30)))
       (map snd baseProduction)"
  by (simp add: calculateMonthlyProduction_def case_prod_beta)

text \<open>
  C8. Whatever the system size, the tilt, the latitude and the site constraints (so whatever
  the obstacles), the monthly series has twelve entries, and their labels are the twelve
  fixed, pairwise different labels Ene, Feb, ..., Dic in calendar order. The series shown by
  the simulation component is such a series.
\<close>

theorem monthly_series_twelve_in_calendar_order:
  "length (calculateMonthlyProduction mc s t l) = 12
   \<and> map month (calculateMonthlyProduction mc s t l) =
       [''Ene'', ''Feb'', ''Mar'', ''Abr'', ''May'', ''Jun'',
        ''Jul'', ''Ago'', ''Sep'', ''Oct'', ''Nov'', ''Dic'']
   \<and> distinct (map month (calculateMonthlyProduction mc s t l))
   \<and> map month (monthlyProduction (SimulationResults mc cs sc loc)) =
       [''Ene'', ''Feb'', ''Mar'', ''Abr'', ''May'', ''Jun'',
        ''Jul'', ''Ago'', ''Sep'', ''Oct'', ''Nov'', ''Dic'']"
proof -
  have labels: "map month (calculateMonthlyProduction mc s' t' l') =
       [''Ene'', ''Feb'', ''Mar'', ''Abr'', ''May'', ''Jun'',
        ''Jul'', ''Ago'', ''Sep'', ''Oct'', ''Nov'', ''Dic'']" for s' t' l'
    by (simp add: months_calculateMonthlyProduction baseProduction_def)
  have "distinct (map month (calculateMonthlyProduction mc s t l))"
    unfolding labels by simp
  moreover have "map month (monthlyProduction (SimulationResults mc cs sc loc)) =
       [''Ene'', ''Feb'', ''Mar'', ''Abr'', ''May'', ''Jun'',
        ''Jul'', ''Ago'', ''Sep'', ''Oct'', ''Nov'', ''Dic'']"
    by (simp add: SimulationResults_def Let_def labels)
  ultimately show ?thesis
    using labels length_calculateMonthlyProduction by simp
qed

text \<open>
  C1, as the code has it. The production of a month is \<^verbatim>\<open>Math.round\<close> of the product of the
  system size, the factor of the month, the tilt factor and 30, the product being formed from
  left to right in double precision. Every month counts 30 days and there is no term for a
  shading loss. For a system of 4 kW, the factor 4.5 of March and a tilt equal to the
  absolute latitude the production is 540, for every implementation of the cosine that
  returns 1 at 0.
\<close>

theorem monthly_production_rounded_thirty_days:
  assumes "i < 12"
  shows "production (calculateMonthlyProduction mc s t l ! i) =
           Math_round
             (binary64
                (binary64 (binary64 (binary64 s * binary64 (snd (baseProduction ! i)))
                           * tiltFactor mc t l)
                 * 30))
         \<and> baseProduction ! 2 = (''Mar'', 4.5)
         \<and> (mc 0 = 1 \<and> t = \<bar>l\<bar>
              \<longrightarrow> tiltFactor mc t l = 1
                  \<and> production (calculateMonthlyProduction mc 4 t l ! 2) = 540)"
proof -
  have march: "baseProduction ! 2 = (''Mar'', 4.5)"
    by (simp add: baseProduction_def)
  have formula: "production (calculateMonthlyProduction mc s t l ! i) =
           Math_round
             (binary64
                (binary64 (binary64 (binary64 s * binary64 (snd (baseProduction ! i)))
                           * tiltFactor mc t l)
                 * 30))"
    using assms by (simp add: nth_calculateMonthlyProduction)
  have "tiltFactor mc t l = 1 \<and> production (calculateMonthlyProduction mc 4 t l ! 2) = 540"
    if "mc 0 = 1" and "t = \<bar>l\<bar>"
  proof -
    have one: "tiltFactor mc t l = 1"
      using that by (simp add: tiltFactor_def tiltAngle_aligned)
    then have "production (calculateMonthlyProduction mc 4 t l ! 2) =
        Math_round (binary64 (binary64 (binary64 (binary64 4 * binary64 4.5) * 1) * 30))"
      by (simp add: nth_calculateMonthlyProduction march)
    also have "\<dots> = 540"
      by (simp add: binary64_compute Math_round_def)
    finally show ?thesis
      using one by simp
  qed
  with formula march show ?thesis
    by blast
qed

theorem monthly_production_rounded_thirty_days_witness:
  "production (calculateMonthlyProduction Math_cos_nearest 4 30 (- 30) ! 2) = 540
   \<and> production (calculateMonthlyProduction Math_cos_nearest 0.3 0 0 ! 2) = 40"
proof -
  have h: "(2::nat) < 12" by simp
  have a: "Math_cos_nearest 0 = 1 \<and> (30::real) = \<bar>- 30\<bar>"
    by (simp add: Math_cos_nearest_zero)
  have z: "tiltFactor Math_cos_nearest 0 0 = 1"
    by (simp add: tiltFactor_def tiltAngle_aligned Math_cos_nearest_zero)
  have "production (calculateMonthlyProduction Math_cos_nearest 4 30 (- 30) ! 2) = 540"
    using monthly_production_rounded_thirty_days
        [OF h, where mc = Math_cos_nearest and t = 30 and l = "- 30"] a
    by blast
  moreover have "production (calculateMonthlyProduction Math_cos_nearest 0.3 0 0 ! 2) =
      Math_round (binary64 (binary64 (binary64 (binary64 0.3 * binary64 (snd (baseProduction ! 2)))
                           * tiltFactor Math_cos_nearest 0 0) * 30))"
    using monthly_production_rounded_thirty_days
        [OF h, where mc = Math_cos_nearest and s = "0.3" and t = 0 and l = 0]
    by blast
  moreover have "\<dots> = 40"
    by (simp add: z baseProduction_def) (simp add: binary64_compute Math_round_def)
  ultimately show ?thesis
    by simp
qed

text \<open>
  C1 as stated fails because of the rounding: one 360 W panel, tilt equal to the absolute
  latitude, no shading. The stated product for January is 56.16 with 30 days and 58.032 with
  the 31 days of the month; the code gives 56.
\<close>

theorem monthly_production_formula_counterexample:
  "production (calculateMonthlyProduction Math_cos_nearest 0.36 30 (- 30) ! 0) = 56
   \<and> tiltFactor Math_cos_nearest 30 (- 30) = 1
   \<and> baseProduction ! 0 = (''Ene'', 5.2)
   \<and> production (calculateMonthlyProduction Math_cos_nearest 0.36 30 (- 30) ! 0)
       \<noteq> 0.36 * 5.2 * tiltFactor Math_cos_nearest 30 (- 30) * 30 * (1 - 0 / 100)
   \<and> production (calculateMonthlyProduction Math_cos_nearest 0.36 30 (- 30) ! 0)
       \<noteq> 0.36 * 5.2 * tiltFactor Math_cos_nearest 30 (- 30) * 31 * (1 - 0 / 100)"
proof -
  note tf = tiltFactor_aligned
  have jan: "baseProduction ! 0 = (''Ene'', 5.2)"
    by (simp add: baseProduction_def)
  have "production (calculateMonthlyProduction Math_cos_nearest 0.36 30 (- 30) ! 0) =
      Math_round (binary64 (binary64 (binary64 (binary64 0.36 * binary64 5.2) * 1) * 30))"
    by (simp add: nth_calculateMonthlyProduction jan tf)
  also have "\<dots> = 56"
    by (simp add: binary64_compute Math_round_def)
  finally have p: "production (calculateMonthlyProduction Math_cos_nearest 0.36 30 (- 30) ! 0) = 56" .
  show ?thesis
    unfolding p tf jan by simp
qed

section \<open>A selection without panels\<close>

lemma production_zero_size:
  "map production (calculateMonthlyProduction mc 0 t l) = replicate 12 0"
proof -
  have "replicate 12 (0::real) = [0, 0, 0, 0, 0, 0, 0, 0, 0, 0, 0, 0]"
    by (simp add: eval_nat_numeral)
  then show ?thesis
    by (simp add: calculateMonthlyProduction_def baseProduction_def Math_round_zero)
qed

lemma annual_zero_size:
  "foldl (\<lambda>acc m. acc + production m) 0 (calculateMonthlyProduction mc 0 t l) = 0"
  by (simp add: calculateMonthlyProduction_def baseProduction_def Math_round_zero)

lemma performanceRatio_constant:
  "performanceRatio (calculatePerformanceMetrics z monthly) = 0.8"
  by (simp add: calculatePerformanceMetrics_def Let_def)

text \<open>
  C2, as the code has it. With no component of type panel the system size is 0, each of
  the twelve monthly values is 0, and so are the annual production and the CO2 savings.
  The performance ratio is the constant 0.8 for every system size and every monthly series,
  hence for every selection. Nothing is stated about the specific yield.
\<close>

theorem zero_size_metrics:
  "(filter (\<lambda>c. type c = panel) cs = [] \<longrightarrow>
      systemSize (SimulationResults mc cs sc loc) = 0
      \<and> map production (monthlyProduction (SimulationResults mc cs sc loc)) = replicate 12 0
      \<and> annualProduction (metrics (SimulationResults mc cs sc loc)) = 0
      \<and> co2Savings (metrics (SimulationResults mc cs sc loc)) = 0)
   \<and> performanceRatio (calculatePerformanceMetrics z monthly) = 0.8
   \<and> performanceRatio (metrics (SimulationResults mc cs sc loc)) = 0.8"
proof -
  have "performanceRatio (metrics (SimulationResults mc cs sc loc)) = 0.8"
    by (simp add: SimulationResults_def Let_def performanceRatio_constant)
  then show ?thesis
    by (simp add: SimulationResults_def calculatePerformanceMetrics_def Let_def
        production_zero_size annual_zero_size)
qed

theorem zero_size_metrics_witness:
  "filter (\<lambda>c. type c = panel)
     [\<lparr>component_id = ''2'', type = inverter, manufacturer = ''SMA'',
       model = ''Sunny Boy 5.0'', specifications = [''power'' \<mapsto> NumberValue 5000]\<rparr>] = []
   \<and> annualProduction (metrics (SimulationResults Math_cos_nearest
        [\<lparr>component_id = ''2'', type = inverter, manufacturer = ''SMA'',
          model = ''Sunny Boy 5.0'', specifications = [''power'' \<mapsto> NumberValue 5000]\<rparr>]
        \<lparr>availableArea = 100, roofType = ''plano'', orientation = 0, tilt = 30, obstacles = []\<rparr>
        None)) = 0
   \<and> performanceRatio (metrics (SimulationResults Math_cos_nearest
        [\<lparr>component_id = ''2'', type = inverter, manufacturer = ''SMA'',
          model = ''Sunny Boy 5.0'', specifications = [''power'' \<mapsto> NumberValue 5000]\<rparr>]
        \<lparr>availableArea = 100, roofType = ''plano'', orientation = 0, tilt = 30, obstacles = []\<rparr>
        None)) = 0.8"
proof -
  let ?cs = "[\<lparr>component_id = ''2'', type = inverter, manufacturer = ''SMA'',
       model = ''Sunny Boy 5.0'', specifications = [''power'' \<mapsto> NumberValue 5000]\<rparr>]"
  have h: "filter (\<lambda>c. type c = panel) ?cs = []" by simp
  show ?thesis
    using h zero_size_metrics [of ?cs Math_cos_nearest] by blast
qed

text \<open>
  C2 as stated fails on the page's initial state (no component selected, tilt 30, no
  location): the system size is 0, the specific yield is the quotient 0 / 0, which is NaN,
  and the performance ratio is 0.8, not 0.
\<close>

theorem zero_size_counterexample:
  "systemSize (SimulationResults Math_cos_nearest []
      \<lparr>availableArea = 100, roofType = ''plano'', orientation = 0, tilt = 30, obstacles = []\<rparr>
      None) = 0
   \<and> specificYield (metrics (SimulationResults Math_cos_nearest []
      \<lparr>availableArea = 100, roofType = ''plano'', orientation = 0, tilt = 30, obstacles = []\<rparr>
      None)) = NaN
   \<and> performanceRatio (metrics (SimulationResults Math_cos_nearest []
      \<lparr>availableArea = 100, roofType = ''plano'', orientation = 0, tilt = 30, obstacles = []\<rparr>
      None)) = 0.8"
  by (simp add: SimulationResults_def calculatePerformanceMetrics_def Let_def
      annual_zero_size js_div_def)

section \<open>System size\<close>

lemma calculateSystemSize_count:
  "calculateSystemSize cs = 0.36 * real (length (filter (\<lambda>c. type c = panel) cs))"
  by (simp add: calculateSystemSize_def)

lemma spec_systemSizeKW_uniform:
  assumes "\<forall>c \<in> set cs. type c = panel \<longrightarrow> spec_nominalPowerKW c = k"
  shows "spec_systemSizeKW cs = k * real (length (filter (\<lambda>c. type c = panel) cs))"
  using assms
  by (induction cs) (simp_all add: spec_systemSizeKW_def algebra_simps)

text \<open>
  C3, as the code has it. The system size is 0.360 kW for each component of type panel,
  whatever its specifications; an empty selection gives 0, and the simulation component
  computes the same value. It is the sum of the nominal powers when every panel is rated
  360 W.
\<close>

theorem system_size_counts_panels:
  "calculateSystemSize cs = 0.36 * real (length (filter (\<lambda>c. type c = panel) cs))
   \<and> calculateSystemSize [] = 0
   \<and> systemSize (SimulationResults mc cs sc loc) = calculateSystemSize cs
   \<and> ((\<forall>c \<in> set cs. type c = panel \<longrightarrow> specifications c ''power'' = Some (NumberValue 360))
        \<longrightarrow> calculateSystemSize cs = spec_systemSizeKW cs)"
proof -
  have "calculateSystemSize cs = spec_systemSizeKW cs"
    if h: "\<forall>c \<in> set cs. type c = panel \<longrightarrow> specifications c ''power'' = Some (NumberValue 360)"
  proof -
    have "\<forall>c \<in> set cs. type c = panel \<longrightarrow> spec_nominalPowerKW c = 0.36"
      using h by (simp add: spec_nominalPowerKW_def)
    then have "spec_systemSizeKW cs = 0.36 * real (length (filter (\<lambda>c. type c = panel) cs))"
      by (rule spec_systemSizeKW_uniform)
    then show ?thesis
      by (simp only: calculateSystemSize_count)
  qed
  then show ?thesis
    by (simp add: calculateSystemSize_def SimulationResults_def Let_def)
qed

theorem system_size_counts_panels_witness:
  "calculateSystemSize
        [\<lparr>component_id = ''1'', type = panel, manufacturer = ''SunPower'',
          model = ''SPR-X22-360'', specifications = [''power'' \<mapsto> NumberValue 360]\<rparr>,
         \<lparr>component_id = ''2'', type = inverter, manufacturer = ''SMA'',
          model = ''Sunny Boy 5.0'', specifications = [''power'' \<mapsto> NumberValue 5000]\<rparr>]
     = spec_systemSizeKW
        [\<lparr>component_id = ''1'', type = panel, manufacturer = ''SunPower'',
          model = ''SPR-X22-360'', specifications = [''power'' \<mapsto> NumberValue 360]\<rparr>,
         \<lparr>component_id = ''2'', type = inverter, manufacturer = ''SMA'',
          model = ''Sunny Boy 5.0'', specifications = [''power'' \<mapsto> NumberValue 5000]\<rparr>]
   \<and> spec_systemSizeKW
        [\<lparr>component_id = ''1'', type = panel, manufacturer = ''SunPower'',
          model = ''SPR-X22-360'', specifications = [''power'' \<mapsto> NumberValue 360]\<rparr>,
         \<lparr>component_id = ''2'', type = inverter, manufacturer = ''SMA'',
          model = ''Sunny Boy 5.0'', specifications = [''power'' \<mapsto> NumberValue 5000]\<rparr>] = 0.36"
proof -
  let ?cs = "[\<lparr>component_id = ''1'', type = panel, manufacturer = ''SunPower'',
          model = ''SPR-X22-360'', specifications = [''power'' \<mapsto> NumberValue 360]\<rparr>,
         \<lparr>component_id = ''2'', type = inverter, manufacturer = ''SMA'',
          model = ''Sunny Boy 5.0'', specifications = [''power'' \<mapsto> NumberValue 5000]\<rparr>]"
  have h: "\<forall>c \<in> set ?cs. type c = panel \<longrightarrow> specifications c ''power'' = Some (NumberValue 360)"
    by simp
  have eq: "calculateSystemSize ?cs = spec_systemSizeKW ?cs"
    using system_size_counts_panels [of ?cs] h by blast
  moreover have "calculateSystemSize ?cs = 0.36"
    by (simp add: calculateSystemSize_def)
  ultimately show ?thesis
    by simp
qed

text \<open>
  C3 as stated fails for a panel rated 400 W, whose nominal power is 0.4 kW, and for a panel
  with no power entry, whose nominal power counts as 0: the code gives 0.36 kW for both.
\<close>

theorem system_size_nominal_power_counterexample:
  "spec_systemSizeKW
     [\<lparr>component_id = ''1'', type = panel, manufacturer = ''SolarTech Industries'',
       model = ''ST-400W-MH'', specifications = [''power'' \<mapsto> NumberValue 400]\<rparr>] = 0.4
   \<and> calculateSystemSize
     [\<lparr>component_id = ''1'', type = panel, manufacturer = ''SolarTech Industries'',
       model = ''ST-400W-MH'', specifications = [''power'' \<mapsto> NumberValue 400]\<rparr>] = 0.36
   \<and> spec_systemSizeKW
     [\<lparr>component_id = ''1'', type = panel, manufacturer = ''SolarTech Industries'',
       model = ''ST-400W-MH'', specifications = Map.empty\<rparr>] = 0
   \<and> calculateSystemSize
     [\<lparr>component_id = ''1'', type = panel, manufacturer = ''SolarTech Industries'',
       model = ''ST-400W-MH'', specifications = Map.empty\<rparr>] = 0.36"
  by (simp add: spec_systemSizeKW_def spec_nominalPowerKW_def calculateSystemSize_def)

section \<open>The tilt factor\<close>

text \<open>
  The products of the estimator keep the sign of the tilt factor.
\<close>

lemma month_value_nonneg:
  assumes "0 \<le> s" and "0 \<le> f" and "0 \<le> c"
  shows "0 \<le> Math_round (binary64 (binary64 (binary64 (binary64 s * binary64 f) * c) * 30))"
  using assms by (intro Math_round_nonneg binary64_nonneg mult_nonneg_nonneg) simp_all

lemma month_value_nonpos:
  assumes "0 \<le> s" and "0 \<le> f" and "c \<le> 0"
  shows "Math_round (binary64 (binary64 (binary64 (binary64 s * binary64 f) * c) * 30)) \<le> 0"
proof -
  have "0 \<le> binary64 (binary64 s * binary64 f)"
    using assms by (intro binary64_nonneg mult_nonneg_nonneg)
  then have "binary64 (binary64 s * binary64 f) * c \<le> 0"
    using assms(3) by (rule mult_nonneg_nonpos)
  then have "binary64 (binary64 (binary64 s * binary64 f) * c) \<le> 0"
    by (rule binary64_nonpos)
  then have "binary64 (binary64 (binary64 s * binary64 f) * c) * 30 \<le> 0"
    by simp
  then show ?thesis
    by (intro Math_round_nonpos binary64_nonpos)
qed

lemma list_all_production:
  assumes "\<And>f. 0 \<le> f \<Longrightarrow>
             P (Math_round
                  (binary64 (binary64 (binary64 (binary64 s * binary64 f) * tiltFactor mc t l)
                             * 30)))"
  shows "list_all (\<lambda>p. P (production p)) (calculateMonthlyProduction mc s t l)"
  by (simp add: calculateMonthlyProduction_def baseProduction_def assms)

text \<open>
  Two arguments of the cosine in double precision: at tilt 180 and latitude 0 the argument
  is within \<open>2 ^ - 49\<close> of \<open>pi\<close>, and the double nearest to its cosine is - 1; at tilt 90
  the argument is within \<open>2 ^ - 49\<close> of \<open>pi / 2\<close>, and its cosine is too small for a
  monthly product to reach one half.
\<close>

lemma cos_ge_one_minus_half_square:
  fixes x :: real
  shows "1 - x\<^sup>2 / 2 \<le> cos x"
proof -
  have "cos x = 1 - 2 * (sin (x / 2))\<^sup>2"
    using cos_double_sin [of "x / 2"] by simp
  moreover have "(sin (x / 2))\<^sup>2 \<le> (x / 2)\<^sup>2"
    using abs_sin_x_le_abs_x [of "x / 2"] by (simp only: abs_le_square_iff)
  moreover have "(x / 2)\<^sup>2 = x\<^sup>2 / 4"
    by (simp add: power2_eq_square)
  ultimately show ?thesis
    by linarith
qed

lemma binary64_180: "binary64 180 = 180"
  by (simp add: binary64_compute)

lemma binary64_90: "binary64 90 = 90"
  by (simp add: binary64_compute)

lemma Math_PI_bounds:
  shows "9007199254740991 / 9007199254740992 * pi \<le> Math_PI"
    and "Math_PI \<le> 9007199254740993 / 9007199254740992 * pi"
    and "0 < Math_PI"
  unfolding Math_PI_def using binary64_bounds [OF pi_gt_zero] by simp_all

lemma angle_180: "\<bar>tiltAngle 180 0 - pi\<bar> \<le> 1 / 2 ^ 49"
proof -
  define X where "X = binary64 (180 * Math_PI)"
  define a where "a = binary64 (X / 180)"
  have eq: "tiltAngle 180 0 = a"
    by (simp add: tiltAngle_def binary64_180 a_def X_def)
  have "0 < 180 * Math_PI"
    using Math_PI_bounds(3) by simp
  from binary64_bounds_numeral [OF this] binary64_bounds(3) [OF this]
  have X: "9007199254740991 / 9007199254740992 * (180 * Math_PI) \<le> X"
    "X \<le> 9007199254740993 / 9007199254740992 * (180 * Math_PI)" "0 < X"
    by (simp_all add: X_def)
  have "0 < X / 180"
    using X(3) by simp
  from binary64_bounds_numeral [OF this]
  have a: "9007199254740991 / 9007199254740992 * (X / 180) \<le> a"
    "a \<le> 9007199254740993 / 9007199254740992 * (X / 180)"
    by (simp_all add: a_def)
  have "\<bar>a - pi\<bar> \<le> 1 / 562949953421312"
    using a X Math_PI_bounds(1,2) pi_gt_zero pi_less_4 by linarith
  then show ?thesis
    unfolding eq by simp
qed

lemma angle_90: "\<bar>tiltAngle 90 0 - pi / 2\<bar> \<le> 1 / 2 ^ 49"
proof -
  define X where "X = binary64 (90 * Math_PI)"
  define a where "a = binary64 (X / 180)"
  have eq: "tiltAngle 90 0 = a"
    by (simp add: tiltAngle_def binary64_90 a_def X_def)
  have "0 < 90 * Math_PI"
    using Math_PI_bounds(3) by simp
  from binary64_bounds_numeral [OF this] binary64_bounds(3) [OF this]
  have X: "9007199254740991 / 9007199254740992 * (90 * Math_PI) \<le> X"
    "X \<le> 9007199254740993 / 9007199254740992 * (90 * Math_PI)" "0 < X"
    by (simp_all add: X_def)
  have "0 < X / 180"
    using X(3) by simp
  from binary64_bounds_numeral [OF this]
  have a: "9007199254740991 / 9007199254740992 * (X / 180) \<le> a"
    "a \<le> 9007199254740993 / 9007199254740992 * (X / 180)"
    by (simp_all add: a_def)
  have "\<bar>a - pi / 2\<bar> \<le> 1 / 562949953421312"
    using a X Math_PI_bounds(1,2) pi_gt_zero pi_less_4 by linarith
  then show ?thesis
    unfolding eq by simp
qed

lemma binary64_near_minus_one:
  assumes "- 1 \<le> y" and "y \<le> - 1 + 1 / 2 ^ 55"
  shows "binary64 y = - 1"
proof (cases "y = - 1")
  case True
  then show ?thesis
    by (simp add: binary64_compute)
next
  case False
  with assms(1) have lt: "- 1 < y"
    by simp
  have "2 powi (- 53 + 52) \<le> \<bar>y\<bar>" and "\<bar>y\<bar> < 2 powi (- 53 + 53)"
    using lt assms(2) by (simp_all add: power_int_minus)
  then have eq: "binary64 y = of_int (round_half_even (y / 2 powi (- 53))) * 2 powi (- 53)"
    by (rule binary64_eval)
  define z where "z = y * 2 ^ 53"
  have z: "- 9007199254740992 < z" "z \<le> - 9007199254740992 + 1 / 4"
    using lt assms(2) by (simp_all add: z_def)
  then have fl: "\<lfloor>z\<rfloor> = - 9007199254740992"
    by (simp add: floor_eq_iff)
  have "round_half_even z = - 9007199254740992"
    using z by (simp add: round_half_even_def Let_def fl)
  moreover have "y / 2 powi (- 53) = z"
    by (simp add: z_def power_int_minus)
  ultimately show ?thesis
    unfolding eq by (simp add: power_int_minus)
qed

lemma Math_cos_nearest_180: "Math_cos_nearest (tiltAngle 180 0) = - 1"
proof -
  define d where "d = tiltAngle 180 0 - pi"
  have d: "\<bar>d\<bar> \<le> 1 / 2 ^ 49"
    unfolding d_def by (rule angle_180)
  have "cos (tiltAngle 180 0) = cos (d + pi)"
    by (simp add: d_def)
  then have c: "cos (tiltAngle 180 0) = - cos d"
    by simp
  have "\<bar>d\<bar> \<le> \<bar>1 / 2 ^ 49 :: real\<bar>"
    using d by simp
  then have "d\<^sup>2 \<le> (1 / 2 ^ 49)\<^sup>2"
    by (simp only: abs_le_square_iff)
  then have "d\<^sup>2 \<le> 1 / 2 ^ 98"
    by (simp add: power2_eq_square)
  with cos_ge_one_minus_half_square [of d] have "1 - 1 / 2 ^ 55 \<le> cos d"
    by simp
  moreover have "cos d \<le> 1"
    by simp
  ultimately have "- 1 \<le> - cos d" and "- cos d \<le> - 1 + 1 / 2 ^ 55"
    by simp_all
  then show ?thesis
    unfolding Math_cos_nearest_def c by (rule binary64_near_minus_one)
qed

lemma Math_cos_nearest_90: "\<bar>Math_cos_nearest (tiltAngle 90 0)\<bar> \<le> 1 / 2 ^ 48"
proof -
  define d where "d = pi / 2 - tiltAngle 90 0"
  have d: "\<bar>d\<bar> \<le> 1 / 2 ^ 49"
    using angle_90 unfolding d_def by (simp add: abs_minus_commute)
  have "cos (tiltAngle 90 0) = cos (pi / 2 - d)"
    by (simp add: d_def)
  then have "cos (tiltAngle 90 0) = sin d"
    by (simp add: cos_diff)
  then have "\<bar>cos (tiltAngle 90 0)\<bar> \<le> 1 / 2 ^ 49"
    using abs_sin_x_le_abs_x [of d] d by simp
  with binary64_abs_le [of "cos (tiltAngle 90 0)"] show ?thesis
    unfolding Math_cos_nearest_def by simp
qed

lemma production_small_factor:
  assumes "\<bar>c\<bar> \<le> 1 / 2 ^ 48" and "\<bar>k\<bar> \<le> 16"
  shows "Math_round (binary64 (binary64 (k * c) * 30)) = 0"
proof -
  have "\<bar>k * c\<bar> \<le> 16 * (1 / 2 ^ 48)"
    unfolding abs_mult using assms by (intro mult_mono) simp_all
  with binary64_abs_le [of "k * c"] have "\<bar>binary64 (k * c)\<bar> \<le> 1 / 2 ^ 43"
    by simp
  then have "\<bar>binary64 (k * c) * 30\<bar> \<le> 30 / 2 ^ 43"
    by (simp add: abs_mult)
  with binary64_abs_le [of "binary64 (k * c) * 30"]
  have "\<bar>binary64 (binary64 (k * c) * 30)\<bar> < 1 / 2"
    by simp
  then show ?thesis
    by (rule Math_round_small)
qed

text \<open>
  C4, as the code has it. The tilt factor is what \<^verbatim>\<open>Math.cos\<close> returns for the double
  \<^verbatim>\<open>(tilt - Math.abs(latitude)) * Math.PI / 180\<close>, and the estimator multiplies by this
  value as it is: each monthly production is \<^verbatim>\<open>Math.round\<close> of the product of the system
  size, the factor of the month, the tilt factor and 30. When the cosine is rounded to the
  nearest double, the factor differs from the cosine of that argument by a relative error of
  at most \<open>2 ^ - 53\<close>. For a system size that is not negative, no monthly production is
  negative when the factor is not negative, and none is positive when the factor is not
  positive.
\<close>

theorem tilt_factor_raw_cosine:
  "tiltFactor mc t l =
     mc (binary64 (binary64 (binary64 (binary64 t - \<bar>binary64 l\<bar>) * binary64 pi) / 180))
   \<and> map production (calculateMonthlyProduction mc s t l) =
       map (\<lambda>f. Math_round
                   (binary64 (binary64 (binary64 (binary64 s * binary64 f) * tiltFactor mc t l)
                              * 30)))
         (map snd baseProduction)
   \<and> \<bar>tiltFactor Math_cos_nearest t l - cos (tiltAngle t l)\<bar> \<le> \<bar>cos (tiltAngle t l)\<bar> / 2 ^ 53
   \<and> (0 \<le> s \<and> 0 \<le> tiltFactor mc t l \<longrightarrow>
        list_all (\<lambda>p. 0 \<le> production p) (calculateMonthlyProduction mc s t l))
   \<and> (0 \<le> s \<and> tiltFactor mc t l \<le> 0 \<longrightarrow>
        list_all (\<lambda>p. production p \<le> 0) (calculateMonthlyProduction mc s t l))"
proof -
  have raw: "tiltFactor mc t l =
     mc (binary64 (binary64 (binary64 (binary64 t - \<bar>binary64 l\<bar>) * binary64 pi) / 180))"
    by (simp add: tiltFactor_def tiltAngle_def Math_PI_def)
  have near: "\<bar>tiltFactor Math_cos_nearest t l - cos (tiltAngle t l)\<bar>
      \<le> \<bar>cos (tiltAngle t l)\<bar> / 2 ^ 53"
    unfolding tiltFactor_def Math_cos_nearest_def by (rule binary64_accurate)
  have up: "list_all (\<lambda>p. 0 \<le> production p) (calculateMonthlyProduction mc s t l)"
    if "0 \<le> s" and "0 \<le> tiltFactor mc t l"
    using that by (intro list_all_production month_value_nonneg)
  have down: "list_all (\<lambda>p. production p \<le> 0) (calculateMonthlyProduction mc s t l)"
    if "0 \<le> s" and "tiltFactor mc t l \<le> 0"
    using that by (intro list_all_production month_value_nonpos)
  from raw near up down productions_calculateMonthlyProduction [of mc s t l] show ?thesis
    by blast
qed

theorem tilt_factor_raw_cosine_witness:
  "(0::real) \<le> 3.6 \<and> 0 \<le> tiltFactor Math_cos_nearest 30 (- 30)
   \<and> list_all (\<lambda>p. 0 \<le> production p) (calculateMonthlyProduction Math_cos_nearest 3.6 30 (- 30))
   \<and> (0::real) \<le> 0.36 \<and> tiltFactor Math_cos_nearest 180 0 \<le> 0
   \<and> list_all (\<lambda>p. production p \<le> 0) (calculateMonthlyProduction Math_cos_nearest 0.36 180 0)"
proof -
  have a: "(0::real) \<le> 3.6 \<and> 0 \<le> tiltFactor Math_cos_nearest 30 (- 30)"
    by (simp add: tiltFactor_aligned)
  have b: "(0::real) \<le> 0.36 \<and> tiltFactor Math_cos_nearest 180 0 \<le> 0"
    by (simp add: tiltFactor_def Math_cos_nearest_180)
  from a b tilt_factor_raw_cosine [of Math_cos_nearest 30 "- 30" "3.6"]
    tilt_factor_raw_cosine [of Math_cos_nearest 180 0 "0.36"]
  show ?thesis
    by blast
qed

text \<open>
  C4 as stated fails. At tilt 180 and latitude 0 the factor is - 1 and a 0.36 kW system gets
  - 56 for January; at tilt 90 and latitude 0 the same system gets 0 for January, with a
  positive system size.
\<close>

theorem tilt_factor_floor_counterexample:
  "tiltFactor Math_cos_nearest 180 0 = - 1
   \<and> production (calculateMonthlyProduction Math_cos_nearest 0.36 180 0 ! 0) = - 56
   \<and> production (calculateMonthlyProduction Math_cos_nearest 0.36 90 0 ! 0) = 0
   \<and> (0::real) < 0.36"
proof -
  have tf: "tiltFactor Math_cos_nearest 180 0 = - 1"
    by (simp add: tiltFactor_def Math_cos_nearest_180)
  have jan: "baseProduction ! 0 = (''Ene'', 5.2)"
    by (simp add: baseProduction_def)
  have "production (calculateMonthlyProduction Math_cos_nearest 0.36 180 0 ! 0) =
      Math_round (binary64 (binary64 (binary64 (binary64 0.36 * binary64 5.2) * (- 1)) * 30))"
    by (simp add: nth_calculateMonthlyProduction jan tf)
  also have "\<dots> = - 56"
    by (simp add: binary64_compute Math_round_def)
  finally have p: "production (calculateMonthlyProduction Math_cos_nearest 0.36 180 0 ! 0) = - 56" .
  have k: "\<bar>binary64 (binary64 0.36 * binary64 5.2)\<bar> \<le> 16"
    by (simp add: binary64_compute)
  have "production (calculateMonthlyProduction Math_cos_nearest 0.36 90 0 ! 0) =
      Math_round (binary64 (binary64 (binary64 (binary64 0.36 * binary64 5.2)
                                      * Math_cos_nearest (tiltAngle 90 0)) * 30))"
    by (simp add: nth_calculateMonthlyProduction jan tiltFactor_def)
  also have "\<dots> = 0"
    using Math_cos_nearest_90 k by (rule production_small_factor)
  finally have q: "production (calculateMonthlyProduction Math_cos_nearest 0.36 90 0 ! 0) = 0" .
  from tf p q show ?thesis
    by simp
qed

section \<open>Inputs that are not read\<close>

lemma SimulationResults_depends:
  "SimulationResults mc cs sc loc =
     \<lparr>systemSize = calculateSystemSize cs,
      monthlyProduction =
        calculateMonthlyProduction mc
          (real (length (filter (\<lambda>c. type c = panel) cs)) * binary64 0.360)
          (tilt sc) (effectiveLatitude loc),
      metrics = calculatePerformanceMetrics (calculateSystemSize cs)
        (calculateMonthlyProduction mc
          (real (length (filter (\<lambda>c. type c = panel) cs)) * binary64 0.360)
          (tilt sc) (effectiveLatitude loc))\<rparr>"
  by (simp add: SimulationResults_def calculateSystemSize_def Let_def)

text \<open>
  C10. Changing the orientation and the obstacle list of the site constraints changes
  nothing: the simulation component returns the same system size, monthly series and
  metrics, and the page returns the same simulation and the same economic analysis (cost
  breakdown, total cost, cash-flow series and payback year).
\<close>

theorem orientation_and_obstacles_ignored:
  "SimulationResults mc cs (sc\<lparr>orientation := ori, obstacles := obs\<rparr>) loc =
     SimulationResults mc cs sc loc
   \<and> Dashboard mc
        (st\<lparr>systemConstraints := (systemConstraints st)\<lparr>orientation := ori, obstacles := obs\<rparr>\<rparr>)
       = Dashboard mc st"
proof -
  have tilt_kept: "tilt (c\<lparr>orientation := ori, obstacles := obs\<rparr>) = tilt c" for c :: SystemConstraints
    by simp
  have sim: "SimulationResults mc cs' (c\<lparr>orientation := ori, obstacles := obs\<rparr>) loc' =
      SimulationResults mc cs' c loc'" for cs' c loc'
    unfolding SimulationResults_depends tilt_kept ..
  have "Dashboard mc
        (st\<lparr>systemConstraints := (systemConstraints st)\<lparr>orientation := ori, obstacles := obs\<rparr>\<rparr>)
       = Dashboard mc st"
    by (simp add: Dashboard_def sim)
  with sim show ?thesis
    by (intro conjI)
qed

section \<open>Cash flow and payback year\<close>

lemma length_generateROIData: "length (generateROIData tc s) = 26"
  by (simp add: generateROIData_def Let_def)

lemma nth_generateROIData:
  assumes "y < 26"
  shows "generateROIData tc s ! y =
           \<lparr>year = y, balance = - tc + s * 1600 * 0.15 * real y, yearly_production = s * 1600\<rparr>"
  using assms by (simp add: generateROIData_def Let_def del: upt_Suc)

lemma balance_strict_mono:
  assumes "0 < s * 1600" and "y < y'" and "y' < 26"
  shows "balance (generateROIData tc s ! y) < balance (generateROIData tc s ! y')"
proof -
  have "y < 26" using assms by simp
  have "0 < s * 1600 * 0.15" using assms(1) by simp
  then have "s * 1600 * 0.15 * real y < s * 1600 * 0.15 * real y'"
    using assms(2) by (simp only: mult_less_cancel_left_pos of_nat_less_iff)
  then show ?thesis
    by (simp add: nth_generateROIData \<open>y < 26\<close> \<open>y' < 26\<close>)
qed

lemma findPaybackYear_first:
  assumes "find (\<lambda>d. 0 < balance d) roi = Some d"
  shows "findPaybackYear roi = year d"
  using assms by (simp add: findPaybackYear_def)

lemma findPaybackYear_generateROIData:
  assumes "y < 26" and "0 < balance (generateROIData tc s ! y)"
  shows "findPaybackYear (generateROIData tc s) < 26
         \<and> 0 < balance (generateROIData tc s ! findPaybackYear (generateROIData tc s))
         \<and> (\<forall>j < findPaybackYear (generateROIData tc s). \<not> 0 < balance (generateROIData tc s ! j))"
proof -
  let ?roi = "generateROIData tc s"
  have "?roi ! y \<in> set ?roi"
    using assms(1) by (simp add: length_generateROIData)
  then have "find (\<lambda>d. 0 < balance d) ?roi \<noteq> None"
    using assms(2) by (auto simp: find_None_iff)
  then obtain d where d: "find (\<lambda>d. 0 < balance d) ?roi = Some d"
    by blast
  then obtain i where i: "i < length ?roi" "0 < balance (?roi ! i)" "d = ?roi ! i"
      "\<forall>j < i. \<not> 0 < balance (?roi ! j)"
    unfolding find_Some_iff by blast
  have i26: "i < 26" using i(1) by (simp add: length_generateROIData)
  have "year d = i"
    using i(3) i26 by (simp add: nth_generateROIData)
  then have "findPaybackYear ?roi = i"
    using findPaybackYear_first [OF d] by simp
  then show ?thesis
    using i i26 by simp
qed

lemma economic_Dashboard:
  "roiData (economic (Dashboard mc st)) =
     generateROIData (totalCost (economic (Dashboard mc st)))
       (calculateSystemSize (selectedComponents st))"
  by (simp add: Dashboard_def EconomicAnalysis_def Let_def)

text \<open>
  C5, as the code has it. The series has the 26 years 0..25. The balance of year y is
  - totalCost + (systemSize * 1600) * 0.15 * y: the annual production of the cash flow is
  1600 kWh for each kW of system size, the electricity price is the constant 0.15 and the
  horizon is 25 years. On the page the system size is 0.360 kW for each panel, so that the
  series is determined by the total cost and the number of panels. When the system size is
  positive the balance is strictly increasing. When some year has a positive balance, the
  year reported is the smallest such year.
\<close>

theorem cash_flow_fixed_yield_and_price:
  "length (generateROIData tc s) = 26
   \<and> (\<forall>y \<le> 25. year (generateROIData tc s ! y) = y
          \<and> yearly_production (generateROIData tc s ! y) = s * 1600
          \<and> balance (generateROIData tc s ! y) = - tc + (s * 1600) * 0.15 * real y)
   \<and> (0 < s \<longrightarrow>
        (\<forall>y y'. y < y' \<and> y' \<le> 25 \<longrightarrow>
           balance (generateROIData tc s ! y) < balance (generateROIData tc s ! y')))
   \<and> ((\<exists>y \<le> 25. 0 < balance (generateROIData tc s ! y)) \<longrightarrow>
        findPaybackYear (generateROIData tc s) \<le> 25
        \<and> 0 < balance (generateROIData tc s ! findPaybackYear (generateROIData tc s))
        \<and> (\<forall>j < findPaybackYear (generateROIData tc s).
              \<not> 0 < balance (generateROIData tc s ! j)))
   \<and> roiData (EconomicAnalysis cs (Some s)) =
        generateROIData (totalCost (EconomicAnalysis cs (Some s))) s
   \<and> paybackYear (EconomicAnalysis cs (Some s)) =
        findPaybackYear (roiData (EconomicAnalysis cs (Some s)))
   \<and> roiData (economic (Dashboard mc st)) =
        generateROIData (totalCost (economic (Dashboard mc st)))
          (real (length (filter (\<lambda>c. type c = panel) (selectedComponents st))) * 0.360)"
proof -
  have series: "\<forall>y \<le> 25. year (generateROIData tc s ! y) = y
          \<and> yearly_production (generateROIData tc s ! y) = s * 1600
          \<and> balance (generateROIData tc s ! y) = - tc + (s * 1600) * 0.15 * real y"
    by (simp add: nth_generateROIData)
  have mono: "\<forall>y y'. y < y' \<and> y' \<le> 25 \<longrightarrow>
           balance (generateROIData tc s ! y) < balance (generateROIData tc s ! y')"
    if "0 < s"
  proof -
    from that have "0 < s * 1600" by simp
    then show ?thesis
      by (auto intro!: balance_strict_mono)
  qed
  have first: "findPaybackYear (generateROIData tc s) \<le> 25
        \<and> 0 < balance (generateROIData tc s ! findPaybackYear (generateROIData tc s))
        \<and> (\<forall>j < findPaybackYear (generateROIData tc s).
              \<not> 0 < balance (generateROIData tc s ! j))"
    if ex: "\<exists>y \<le> 25. 0 < balance (generateROIData tc s ! y)"
  proof -
    obtain y where y: "y \<le> 25" and b: "0 < balance (generateROIData tc s ! y)"
      using ex by blast
    from y have "y < 26" by simp
    from findPaybackYear_generateROIData [OF this b] show ?thesis
      by simp
  qed
  have "roiData (EconomicAnalysis cs (Some s)) =
        generateROIData (totalCost (EconomicAnalysis cs (Some s))) s"
    and "paybackYear (EconomicAnalysis cs (Some s)) =
        findPaybackYear (roiData (EconomicAnalysis cs (Some s)))"
    by (simp_all add: EconomicAnalysis_def Let_def)
  moreover have "roiData (economic (Dashboard mc st)) =
        generateROIData (totalCost (economic (Dashboard mc st)))
          (real (length (filter (\<lambda>c. type c = panel) (selectedComponents st))) * 0.360)"
    by (simp add: economic_Dashboard calculateSystemSize_def)
  ultimately show ?thesis
    using series mono first length_generateROIData [of tc s] by blast
qed

theorem cash_flow_fixed_yield_and_price_witness:
  "(0::real) < 3.75
   \<and> (\<exists>y \<le> 25. 0 < balance (generateROIData 14000 3.75 ! y))
   \<and> balance (generateROIData 14000 3.75 ! 15) < balance (generateROIData 14000 3.75 ! 16)
   \<and> balance (generateROIData 14000 3.75 ! 16) = 400
   \<and> findPaybackYear (generateROIData 14000 3.75) = 16"
proof -
  note inst = cash_flow_fixed_yield_and_price [of 14000 "3.75" "[]"]
  let ?roi = "generateROIData 14000 3.75"
  have pos: "(0::real) < 3.75" by simp
  have b16: "balance (?roi ! 16) = 400"
    using inst by simp
  have b15: "balance (?roi ! 15) = - 500"
    using inst by simp
  have ex: "\<exists>y \<le> 25. 0 < balance (?roi ! y)"
    using b16 by (intro exI [of _ 16]) simp
  have incr: "balance (?roi ! 15) < balance (?roi ! 16)"
    using inst pos by simp
  have p: "0 < balance (?roi ! findPaybackYear ?roi)"
    and q: "\<forall>j < findPaybackYear ?roi. \<not> 0 < balance (?roi ! j)"
    using inst ex by blast+
  have "\<not> findPaybackYear ?roi < 16"
  proof
    assume lt: "findPaybackYear ?roi < 16"
    then have "findPaybackYear ?roi \<le> 15" by simp
    then have "balance (?roi ! findPaybackYear ?roi) \<le> balance (?roi ! 15)"
      using inst pos by (cases "findPaybackYear ?roi = 15") (auto simp: less_le)
    with p b15 show False by simp
  qed
  moreover have "\<not> 16 < findPaybackYear ?roi"
    using q b16 by auto
  ultimately have "findPaybackYear ?roi = 16" by simp
  with pos ex incr b16 show ?thesis by blast
qed

lemma productions_one_panel:
  "map production (calculateMonthlyProduction Math_cos_nearest (binary64 0.360) 30 (- 30)) =
     [56, 52, 49, 41, 32, 27, 29, 36, 43, 51, 54, 57]"
  unfolding productions_calculateMonthlyProduction tiltFactor_aligned
  by (simp add: baseProduction_def) (simp add: binary64_compute Math_round_def)

lemma foldl_production:
  "foldl (\<lambda>acc m. acc + production m) a ms = foldl (+) a (map production ms)"
  by (induction ms arbitrary: a) simp_all

text \<open>
  C5 as stated fails for the annual production of the yield estimate. For one panel, tilt 30
  and latitude - 30 the estimate is 527 kWh a year, the cash flow counts 576 kWh, and the
  balance of year 1 is - 333.6, not - 420 + 527 * 0.15.
\<close>

theorem cash_flow_annual_production_counterexample:
  "annualProduction (metrics (simulation (Dashboard Math_cos_nearest
      \<lparr>location = Some \<lparr>latitude = - 30, longitude = - 71, address = ''''\<rparr>,
       selectedComponents =
         [\<lparr>component_id = ''1'', type = panel, manufacturer = ''SunPower'',
           model = ''SPR-X22-360'', specifications = [''power'' \<mapsto> NumberValue 360]\<rparr>],
       systemConstraints =
         \<lparr>availableArea = 100, roofType = ''plano'', orientation = 0, tilt = 30,
          obstacles = []\<rparr>\<rparr>))) = 527
   \<and> yearly_production (roiData (economic (Dashboard Math_cos_nearest
      \<lparr>location = Some \<lparr>latitude = - 30, longitude = - 71, address = ''''\<rparr>,
       selectedComponents =
         [\<lparr>component_id = ''1'', type = panel, manufacturer = ''SunPower'',
           model = ''SPR-X22-360'', specifications = [''power'' \<mapsto> NumberValue 360]\<rparr>],
       systemConstraints =
         \<lparr>availableArea = 100, roofType = ''plano'', orientation = 0, tilt = 30,
          obstacles = []\<rparr>\<rparr>)) ! 1) = 576
   \<and> totalCost (economic (Dashboard Math_cos_nearest
      \<lparr>location = Some \<lparr>latitude = - 30, longitude = - 71, address = ''''\<rparr>,
       selectedComponents =
         [\<lparr>component_id = ''1'', type = panel, manufacturer = ''SunPower'',
           model = ''SPR-X22-360'', specifications = [''power'' \<mapsto> NumberValue 360]\<rparr>],
       systemConstraints =
         \<lparr>availableArea = 100, roofType = ''plano'', orientation = 0, tilt = 30,
          obstacles = []\<rparr>\<rparr>)) = 420
   \<and> balance (roiData (economic (Dashboard Math_cos_nearest
      \<lparr>location = Some \<lparr>latitude = - 30, longitude = - 71, address = ''''\<rparr>,
       selectedComponents =
         [\<lparr>component_id = ''1'', type = panel, manufacturer = ''SunPower'',
           model = ''SPR-X22-360'', specifications = [''power'' \<mapsto> NumberValue 360]\<rparr>],
       systemConstraints =
         \<lparr>availableArea = 100, roofType = ''plano'', orientation = 0, tilt = 30,
          obstacles = []\<rparr>\<rparr>)) ! 1) = - 333.6
   \<and> (- 333.6 :: real) \<noteq> - 420 + 527 * 0.15 * 1"
proof -
  let ?cs = "[\<lparr>component_id = ''1'', type = panel, manufacturer = ''SunPower'',
           model = ''SPR-X22-360'', specifications = [''power'' \<mapsto> NumberValue 360]\<rparr>]"
  let ?st = "\<lparr>location = Some \<lparr>latitude = - 30, longitude = - 71, address = ''''\<rparr>,
       selectedComponents = ?cs,
       systemConstraints =
         \<lparr>availableArea = 100, roofType = ''plano'', orientation = 0, tilt = 30,
          obstacles = []\<rparr>\<rparr>"
  have annual: "annualProduction (metrics (simulation (Dashboard Math_cos_nearest ?st))) = 527"
    by (simp add: Dashboard_def SimulationResults_def calculatePerformanceMetrics_def Let_def
        effectiveLatitude_def foldl_production productions_one_panel [simplified])
  have cost: "totalCost (economic (Dashboard Math_cos_nearest ?st)) = 420"
    by (simp add: Dashboard_def EconomicAnalysis_def calculateCosts_def Let_def)
  have roi: "roiData (economic (Dashboard Math_cos_nearest ?st)) = generateROIData 420 0.36"
    unfolding economic_Dashboard cost by (simp add: calculateSystemSize_def)
  have "(1::nat) < 26" by simp
  note e = nth_generateROIData [OF this, of 420 "0.36"]
  have "yearly_production (roiData (economic (Dashboard Math_cos_nearest ?st)) ! 1) = 576"
    and "balance (roiData (economic (Dashboard Math_cos_nearest ?st)) ! 1) = - 333.6"
    unfolding roi e by simp_all
  with annual cost show ?thesis
    by simp
qed

section \<open>Total cost and the year reported without payback\<close>

lemma costs_pos: "0 < costs ty"
  by (cases ty) simp_all

lemma foldl_costs_sum:
  "foldl (\<lambda>acc component. acc + costs (type component)) a cs =
     a + sum_list (map (\<lambda>c. costs (type c)) cs)"
  by (induction cs arbitrary: a) simp_all

lemma sum_costs_nonneg: "0 \<le> sum_list (map (\<lambda>c. costs (type c)) cs)"
  by (induction cs) (simp_all add: costs_pos less_imp_le add_nonneg_nonneg)


lemma totalCost_EconomicAnalysis:
  "totalCost (EconomicAnalysis cs sp) = 1.4 * sum_list (map (\<lambda>c. costs (type c)) cs)"
  by (simp add: EconomicAnalysis_def calculateCosts_def Let_def foldl_costs_sum)

lemma totalCost_nonneg: "0 \<le> totalCost (EconomicAnalysis cs sp)"
  using sum_costs_nonneg [of cs] by (simp add: totalCost_EconomicAnalysis)

lemma roiData_EconomicAnalysis:
  "roiData (EconomicAnalysis cs sp) =
     generateROIData (totalCost (EconomicAnalysis cs sp)) (case sp of None \<Rightarrow> 10 | Some v \<Rightarrow> v)"
  by (simp add: EconomicAnalysis_def Let_def)

lemma paybackYear_EconomicAnalysis:
  "paybackYear (EconomicAnalysis cs sp) = findPaybackYear (roiData (EconomicAnalysis cs sp))"
  by (simp add: EconomicAnalysis_def Let_def)

lemma findPaybackYear_none:
  assumes "\<forall>y \<le> 25. \<not> 0 < balance (generateROIData tc s ! y)"
  shows "findPaybackYear (generateROIData tc s) = 0"
proof -
  have "\<not> 0 < balance (generateROIData tc s ! y)" if "y < 26" for y
  proof -
    from that have "y \<le> 25" by simp
    with assms show ?thesis by blast
  qed
  then have "\<not> (\<exists>d. d \<in> set (generateROIData tc s) \<and> 0 < balance d)"
    by (auto simp: in_set_conv_nth length_generateROIData)
  then have "find (\<lambda>d. 0 < balance d) (generateROIData tc s) = None"
    by (simp add: find_None_iff)
  then show ?thesis
    by (simp add: findPaybackYear_def)
qed

text \<open>
  C6, as the code has it. When no year of the horizon has a positive balance the payback
  year reported is 0; this is a value, not an error. The total cost is never negative, so
  the balance of year 0 is never positive: when a payback exists the year reported lies in
  1..25, and 0 is reported only when there is none.
\<close>

theorem no_payback_reported_as_zero:
  "0 \<le> totalCost (EconomicAnalysis cs sp)
   \<and> ((\<forall>y \<le> 25. \<not> 0 < balance (roiData (EconomicAnalysis cs sp) ! y))
        \<longrightarrow> paybackYear (EconomicAnalysis cs sp) = 0)
   \<and> ((\<exists>y \<le> 25. 0 < balance (roiData (EconomicAnalysis cs sp) ! y))
        \<longrightarrow> 1 \<le> paybackYear (EconomicAnalysis cs sp)
            \<and> paybackYear (EconomicAnalysis cs sp) \<le> 25
            \<and> 0 < balance (roiData (EconomicAnalysis cs sp) ! paybackYear (EconomicAnalysis cs sp)))"
proof -
  define tc where "tc = totalCost (EconomicAnalysis cs sp)"
  define s where "s = (case sp of None \<Rightarrow> 10 | Some v \<Rightarrow> v)"
  have roi: "roiData (EconomicAnalysis cs sp) = generateROIData tc s"
    by (simp add: roiData_EconomicAnalysis tc_def s_def)
  have pb: "paybackYear (EconomicAnalysis cs sp) = findPaybackYear (generateROIData tc s)"
    by (simp add: paybackYear_EconomicAnalysis roi)
  have tc0: "0 \<le> tc"
    unfolding tc_def by (rule totalCost_nonneg)
  have none: "findPaybackYear (generateROIData tc s) = 0"
    if "\<forall>y \<le> 25. \<not> 0 < balance (generateROIData tc s ! y)"
    using that by (rule findPaybackYear_none)
  have some: "1 \<le> findPaybackYear (generateROIData tc s)
        \<and> findPaybackYear (generateROIData tc s) \<le> 25
        \<and> 0 < balance (generateROIData tc s ! findPaybackYear (generateROIData tc s))"
    if ex: "\<exists>y \<le> 25. 0 < balance (generateROIData tc s ! y)"
  proof -
    obtain y where y: "y \<le> 25" and b: "0 < balance (generateROIData tc s ! y)"
      using ex by blast
    from y have "y < 26" by simp
    from findPaybackYear_generateROIData [OF this b]
    have lt: "findPaybackYear (generateROIData tc s) < 26"
      and p: "0 < balance (generateROIData tc s ! findPaybackYear (generateROIData tc s))"
      by simp_all
    have "findPaybackYear (generateROIData tc s) \<noteq> 0"
    proof
      assume z: "findPaybackYear (generateROIData tc s) = 0"
      have "balance (generateROIData tc s ! 0) = - tc"
        by (simp add: nth_generateROIData)
      with p z tc0 show False by simp
    qed
    with lt p show ?thesis by simp
  qed
  from tc0 none some show ?thesis
    unfolding roi pb tc_def [symmetric] by blast
qed

theorem no_payback_reported_as_zero_witness:
  "list_all (\<lambda>d. \<not> 0 < balance d) (roiData (EconomicAnalysis
        [\<lparr>component_id = ''2'', type = inverter, manufacturer = ''SMA'',
          model = ''Sunny Boy 5.0'', specifications = [''power'' \<mapsto> NumberValue 5000]\<rparr>]
        (Some 0)))
   \<and> paybackYear (EconomicAnalysis
        [\<lparr>component_id = ''2'', type = inverter, manufacturer = ''SMA'',
          model = ''Sunny Boy 5.0'', specifications = [''power'' \<mapsto> NumberValue 5000]\<rparr>]
        (Some 0)) = 0
   \<and> (\<exists>y \<le> 25. 0 < balance (roiData (EconomicAnalysis
        [\<lparr>component_id = ''1'', type = panel, manufacturer = ''SunPower'',
          model = ''SPR-X22-360'', specifications = [''power'' \<mapsto> NumberValue 360]\<rparr>]
        (Some 0.36)) ! y))
   \<and> 1 \<le> paybackYear (EconomicAnalysis
        [\<lparr>component_id = ''1'', type = panel, manufacturer = ''SunPower'',
          model = ''SPR-X22-360'', specifications = [''power'' \<mapsto> NumberValue 360]\<rparr>]
        (Some 0.36))"
proof -
  let ?inv = "[\<lparr>component_id = ''2'', type = inverter, manufacturer = ''SMA'',
          model = ''Sunny Boy 5.0'', specifications = [''power'' \<mapsto> NumberValue 5000]\<rparr>]"
  let ?pan = "[\<lparr>component_id = ''1'', type = panel, manufacturer = ''SunPower'',
          model = ''SPR-X22-360'', specifications = [''power'' \<mapsto> NumberValue 360]\<rparr>]"
  have none: "\<forall>y \<le> 25. \<not> 0 < balance (roiData (EconomicAnalysis ?inv (Some 0)) ! y)"
    by (simp add: roiData_EconomicAnalysis totalCost_EconomicAnalysis nth_generateROIData)
  have "balance (roiData (EconomicAnalysis ?pan (Some 0.36)) ! 5) = 12"
    by (simp add: roiData_EconomicAnalysis totalCost_EconomicAnalysis nth_generateROIData)
  then have some: "\<exists>y \<le> 25. 0 < balance (roiData (EconomicAnalysis ?pan (Some 0.36)) ! y)"
    by (intro exI [of _ 5]) simp
  from none no_payback_reported_as_zero [of ?inv "Some 0"]
  have "paybackYear (EconomicAnalysis ?inv (Some 0)) = 0"
    by blast
  moreover from some no_payback_reported_as_zero [of ?pan "Some 0.36"]
  have "1 \<le> paybackYear (EconomicAnalysis ?pan (Some 0.36))"
    by blast
  moreover have "list_all (\<lambda>d. \<not> 0 < balance d) (roiData (EconomicAnalysis ?inv (Some 0)))"
    unfolding list_all_length using none
    by (simp add: roiData_EconomicAnalysis length_generateROIData)
  ultimately show ?thesis
    using some by blast
qed

text \<open>
  C6 as stated fails for a selection of one inverter (the system size is then 0): every
  balance is -1400, and the year reported is 0, the year of the first entry of the series,
  not -1 and not an undefined value.
\<close>

theorem no_payback_sentinel_counterexample:
  "list_all (\<lambda>d. balance d = - 1400) (roiData (EconomicAnalysis
        [\<lparr>component_id = ''2'', type = inverter, manufacturer = ''SMA'',
          model = ''Sunny Boy 5.0'', specifications = [''power'' \<mapsto> NumberValue 5000]\<rparr>]
        (Some (calculateSystemSize
        [\<lparr>component_id = ''2'', type = inverter, manufacturer = ''SMA'',
          model = ''Sunny Boy 5.0'', specifications = [''power'' \<mapsto> NumberValue 5000]\<rparr>]))))
   \<and> paybackYear (EconomicAnalysis
        [\<lparr>component_id = ''2'', type = inverter, manufacturer = ''SMA'',
          model = ''Sunny Boy 5.0'', specifications = [''power'' \<mapsto> NumberValue 5000]\<rparr>]
        (Some (calculateSystemSize
        [\<lparr>component_id = ''2'', type = inverter, manufacturer = ''SMA'',
          model = ''Sunny Boy 5.0'', specifications = [''power'' \<mapsto> NumberValue 5000]\<rparr>]))) = 0
   \<and> year (roiData (EconomicAnalysis
        [\<lparr>component_id = ''2'', type = inverter, manufacturer = ''SMA'',
          model = ''Sunny Boy 5.0'', specifications = [''power'' \<mapsto> NumberValue 5000]\<rparr>]
        (Some (calculateSystemSize
        [\<lparr>component_id = ''2'', type = inverter, manufacturer = ''SMA'',
          model = ''Sunny Boy 5.0'', specifications = [''power'' \<mapsto> NumberValue 5000]\<rparr>]))) ! 0) = 0"
proof -
  let ?inv = "[\<lparr>component_id = ''2'', type = inverter, manufacturer = ''SMA'',
          model = ''Sunny Boy 5.0'', specifications = [''power'' \<mapsto> NumberValue 5000]\<rparr>]"
  have size: "calculateSystemSize ?inv = 0"
    by (simp add: calculateSystemSize_def)
  have roi: "roiData (EconomicAnalysis ?inv (Some 0)) = generateROIData 1400 0"
    by (simp add: roiData_EconomicAnalysis totalCost_EconomicAnalysis)
  have bal: "balance (generateROIData 1400 0 ! y) = - 1400" if "y < 26" for y
    using that by (simp add: nth_generateROIData)
  have all: "list_all (\<lambda>d. balance d = - 1400) (generateROIData 1400 0)"
    unfolding list_all_length using bal by (simp add: length_generateROIData)
  then have "\<forall>y \<le> 25. \<not> 0 < balance (generateROIData 1400 0 ! y)"
    using bal by simp
  then have "findPaybackYear (generateROIData 1400 0) = 0"
    by (rule findPaybackYear_none)
  moreover have "year (generateROIData 1400 0 ! 0) = 0"
    by (simp add: nth_generateROIData)
  ultimately show ?thesis
    using all by (simp add: size roi paybackYear_EconomicAnalysis)
qed

section \<open>Cost percentages\<close>

lemma foldl_rounded_nonneg:
  assumes "rounds_to_nearest rnd" and "0 \<le> a"
  shows "0 \<le> foldl (\<lambda>acc component. rnd (acc + costs (type component))) a cs"
  using assms(2)
proof (induction cs arbitrary: a)
  case Nil
  then show ?case by simp
next
  case (Cons c cs)
  have "0 < a + costs (type c)"
    using Cons.prems costs_pos [of "type c"] by linarith
  then have "0 < rnd (a + costs (type c))"
    using assms(1) by (rule rnd_bounds(3) [rotated])
  then show ?case
    using Cons.IH [of "rnd (a + costs (type c))"] by simp
qed









subsection \<open>The breakdown in double precision\<close>













end
